theory Spec2Isabelle
  imports Main "HOL-Library.Multiset"
begin

section \<open>Errors and results\<close>

text \<open>
  \<open>models.py\<close> raises one exception of its own, the \<open>NameError\<close> of
  \<open>EdgeConvBase.message\<close>. Every other failure comes out of the tensor and graph
  libraries (an index out of range, tensors whose sizes do not fit, a column that does not
  exist): they are one value here, \<open>LibraryError\<close>. An exception ends the call, so a
  failed step is the result of everything after it.
\<close>

datatype error = NameError | LibraryError

definition and_then :: "error + 'a \<Rightarrow> ('a \<Rightarrow> error + 'b) \<Rightarrow> error + 'b" where
  "and_then r f = (case r of Inl e \<Rightarrow> Inl e | Inr v \<Rightarrow> f v)"

section \<open>The tensor runtime\<close>

text \<open>
  The scalars are floating-point numbers of the tensor library. Their arithmetic is a
  parameter: subtraction, true division, the 2-norm of a vector, \<open>atan2\<close>, and the
  addition, the zero and the count conversion the reducers use. \<open>f_max\<close> is the
  library's \<open>max\<close> reduction of the values one node receives (its value on no message
  included), and \<open>f_long\<close> the conversion of a floating-point number to a 64-bit
  integer that \<open>.long()\<close> applies to every element.
\<close>

record 'a runtime =
  f_zero :: 'a
  f_add :: "'a \<Rightarrow> 'a \<Rightarrow> 'a"
  f_sub :: "'a \<Rightarrow> 'a \<Rightarrow> 'a"
  f_div :: "'a \<Rightarrow> 'a \<Rightarrow> 'a"
  f_norm :: "'a list \<Rightarrow> 'a"
  f_atan2 :: "'a \<Rightarrow> 'a \<Rightarrow> 'a"
  f_count :: "nat \<Rightarrow> 'a"
  f_max :: "'a list \<Rightarrow> 'a"
  f_long :: "'a \<Rightarrow> int"

subsection \<open>Tensors of any rank: the feature argument\<close>

text \<open>
  A tensor is its shape and its elements in row-major order. \<open>forward\<close> looks at the
  rank of \<open>x\<close>, so \<open>x\<close> is a tensor of any rank.
\<close>

datatype 'a tensor = Tensor (shape: "nat list") (elems: "'a list")

definition wf_tensor :: "'a tensor \<Rightarrow> bool" where
  "wf_tensor t = (length (elems t) = prod_list (shape t))"

definition dim :: "'a tensor \<Rightarrow> nat" where
  "dim t = length (shape t)"

text \<open>\<open>x.unsqueeze(-1)\<close>: a last dimension of size 1, the elements as they are.\<close>

definition unsqueeze_last :: "'a tensor \<Rightarrow> 'a tensor" where
  "unsqueeze_last t = Tensor (shape t @ [1]) (elems t)"

text \<open>
  The graph library counts and gathers the nodes along its node dimension, the second-last
  one (\<open>node_dim = -2\<close>): dimension 0 of a matrix. \<open>x.size(-2)\<close> raises on a tensor
  of rank 0 or 1.
\<close>

definition node_size :: "'a tensor \<Rightarrow> error + nat" where
  "node_size t =
     (if length (shape t) < 2 then Inl LibraryError
      else Inr (shape t ! (length (shape t) - 2)))"

text \<open>The \<open>i\<close>-th slice along dimension 0: for a matrix, its \<open>i\<close>-th row.\<close>

definition slice_len :: "'a tensor \<Rightarrow> nat" where
  "slice_len t = prod_list (tl (shape t))"

definition slice :: "'a tensor \<Rightarrow> nat \<Rightarrow> 'a list" where
  "slice t i = take (slice_len t) (drop (i * slice_len t) (elems t))"

text \<open>
  \<open>torch.index_select(t, -2, idx)\<close>: in every block of the leading dimensions, the rows
  named by \<open>idx\<close>, in that order; for a matrix, its rows named by \<open>idx\<close>. An index
  below 0 or not below the size of the node dimension raises.
\<close>

definition index_select :: "'a tensor \<Rightarrow> int list \<Rightarrow> error + 'a tensor" where
  "index_select t idx =
     (let r = length (shape t) in
      if r < 2 then Inl LibraryError
      else
        (let outer = take (r - 2) (shape t); n = shape t ! (r - 2); c = last (shape t) in
         if list_all (\<lambda>i. 0 \<le> i \<and> i < int n) idx
         then Inr (Tensor (outer @ [length idx, c])
                    (concat (map (\<lambda>b. concat (map (\<lambda>i. take c (drop ((b * n + nat i) * c) (elems t)))
                                                  idx))
                              [0..<prod_list outer])))
         else Inl LibraryError))"

text \<open>\<open>x_j - x_i\<close> on two tensors of one shape (both are gathered with one edge list).\<close>

definition sub_tensor :: "'a runtime \<Rightarrow> 'a tensor \<Rightarrow> 'a tensor \<Rightarrow> 'a tensor" where
  "sub_tensor rt a b = Tensor (shape a) (map2 (f_sub rt) (elems a) (elems b))"

subsection \<open>Matrices: positions, contexts, messages\<close>

text \<open>
  Positions, contexts, and what the networks take and return are 2-D tensors: the number of
  columns and the list of rows.
\<close>

datatype 'a mat = Mat (ncols: nat) (rows: "'a list list")

definition nrows :: "'a mat \<Rightarrow> nat" where
  "nrows m = length (rows m)"

definition mat_index_select :: "'a mat \<Rightarrow> int list \<Rightarrow> error + 'a mat" where
  "mat_index_select m idx =
     (if list_all (\<lambda>i. 0 \<le> i \<and> i < int (nrows m)) idx
      then Inr (Mat (ncols m) (map (\<lambda>i. rows m ! nat i) idx))
      else Inl LibraryError)"

text \<open>
  A feature tensor enters \<open>torch.cat(..., dim=1)\<close> beside 2-D tensors made from the
  positions: the ranks must agree, so it must be of rank 2, and then it is the matrix of
  its slices.
\<close>

definition as_mat :: "'a tensor \<Rightarrow> error + 'a mat" where
  "as_mat t =
     (case shape t of
        [n, c] \<Rightarrow> Inr (Mat c (map (slice t) [0..<n]))
      | _ \<Rightarrow> Inl LibraryError)"

text \<open>\<open>torch.cat(ms, dim=1)\<close>: the rows side by side; the row counts must agree.\<close>

definition cat1 :: "'a mat list \<Rightarrow> error + 'a mat" where
  "cat1 ms =
     (case ms of
        [] \<Rightarrow> Inl LibraryError
      | m # _ \<Rightarrow>
          if list_all (\<lambda>a. nrows a = nrows m) ms
          then Inr (Mat (sum_list (map ncols ms))
                        (map (\<lambda>k. concat (map (\<lambda>a. rows a ! k) ms)) [0..<nrows m]))
          else Inl LibraryError)"

text \<open>\<open>pos_j - pos_i\<close>, two matrices of one shape.\<close>

definition sub_mat :: "'a runtime \<Rightarrow> 'a mat \<Rightarrow> 'a mat \<Rightarrow> 'a mat" where
  "sub_mat rt a b = Mat (ncols a) (map2 (map2 (f_sub rt)) (rows a) (rows b))"

text \<open>\<open>a.norm(dim=1).view(-1, 1)\<close>: one column, the norm of each row.\<close>

definition norm_dim1 :: "'a runtime \<Rightarrow> 'a mat \<Rightarrow> 'a mat" where
  "norm_dim1 rt a = Mat 1 (map (\<lambda>r. [f_norm rt r]) (rows a))"

text \<open>
  \<open>a / d\<close> where \<open>d\<close> is one column: broadcasting divides every entry of a row by the
  entry of \<open>d\<close> in that row.
\<close>

definition div_col :: "'a runtime \<Rightarrow> 'a mat \<Rightarrow> 'a mat \<Rightarrow> 'a mat" where
  "div_col rt a d =
     Mat (ncols a) (map2 (\<lambda>r q. map (\<lambda>c. f_div rt c (hd q)) r) (rows a) (rows d))"

text \<open>
  \<open>torch.atan2(a[:, 1], a[:, 0]).view(-1, 1)\<close>; column 1 does not exist in a matrix of
  fewer than two columns.
\<close>

definition atan2_col :: "'a runtime \<Rightarrow> 'a mat \<Rightarrow> error + 'a mat" where
  "atan2_col rt a =
     (if ncols a < 2 then Inl LibraryError
      else Inr (Mat 1 (map (\<lambda>r. [f_atan2 rt (r ! 1) (r ! 0)]) (rows a))))"

section \<open>The message-passing base class\<close>

text \<open>
  \<open>MessagePassing\<close> keeps the reducer and the flow it is constructed with.
  \<open>propagate\<close> gathers every argument of \<open>message\<close> named \<open>a_i\<close> or \<open>a_j\<close> from
  \<open>a\<close> with row \<open>i\<close> or \<open>j\<close> of the edge index, where \<open>(i, j) = (0, 1)\<close> for
  \<open>target_to_source\<close> and \<open>(1, 0)\<close> for \<open>source_to_target\<close>; the gathered tensors
  must all have one size along the node dimension, the number of nodes. It calls \<open>message\<close>,
  reduces the messages per node over row \<open>i\<close> of the edge index, and calls \<open>update\<close>.

  An edge index is the list of its columns, one pair per edge, with the type of its
  elements: 64-bit integers, or floating-point numbers. Tensors are indexed with integer
  tensors only, so \<open>propagate\<close> raises on an edge index of floating-point numbers; what it
  gathers for an integer edge index is the function \<open>collect\<close> of each class below.
\<close>

datatype 'a edge_index = LongIndex "(int \<times> int) list" | FloatIndex "('a \<times> 'a) list"

datatype reducer = Add | Mean | Max

datatype flow = Source_to_target | Target_to_source

definition edge_i :: "flow \<Rightarrow> (int \<times> int) list \<Rightarrow> int list" where
  "edge_i fl ei = (case fl of Target_to_source \<Rightarrow> map fst ei | Source_to_target \<Rightarrow> map snd ei)"

definition edge_j :: "flow \<Rightarrow> (int \<times> int) list \<Rightarrow> int list" where
  "edge_j fl ei = (case fl of Target_to_source \<Rightarrow> map snd ei | Source_to_target \<Rightarrow> map fst ei)"

text \<open>
  One column of the messages a node receives, reduced. The sum starts at zero and is
  taken in edge order; the mean is that sum divided by the number of messages, at least 1
  (so a node without messages gets zero divided by one); the maximum is the runtime's.
\<close>

definition reduce :: "'a runtime \<Rightarrow> reducer \<Rightarrow> 'a list \<Rightarrow> 'a" where
  "reduce rt r vs =
     (case r of
        Add \<Rightarrow> foldl (f_add rt) (f_zero rt) vs
      | Mean \<Rightarrow> f_div rt (foldl (f_add rt) (f_zero rt) vs) (f_count rt (max 1 (length vs)))
      | Max \<Rightarrow> f_max rt vs)"

definition incident :: "'a mat \<Rightarrow> int list \<Rightarrow> nat \<Rightarrow> 'a list list" where
  "incident src index node = map snd (filter (\<lambda>p. fst p = int node) (zip index (rows src)))"

definition scatter :: "'a runtime \<Rightarrow> reducer \<Rightarrow> 'a mat \<Rightarrow> int list \<Rightarrow> nat \<Rightarrow> error + 'a mat" where
  "scatter rt r src index n =
     (if nrows src \<noteq> length index then Inl LibraryError
      else Inr (Mat (ncols src)
                 (map (\<lambda>node. map (\<lambda>k. reduce rt r (map (\<lambda>m. m ! k) (incident src index node)))
                                  [0..<ncols src])
                      [0..<n])))"

section \<open>EdgeConvBase\<close>

text \<open>
  A layer holds what \<open>__init__\<close> stores: the two networks, the reducer, the flow (always
  \<open>target_to_source\<close>), the mode \<open>neighbor_loc\<close> and the flag \<open>self_val\<close>. The
  networks are the caller's; here they are functions from matrices to matrices, and what a
  network does with an input it does not accept is outside this file. The three classes
  share \<open>__init__\<close>, so one record serves the three; the class of a layer is the choice
  of the functions \<open>EdgeConvBase_*\<close>, \<open>EdgeConvGeom_*\<close> or \<open>EdgeConvWithCtx_*\<close>.
\<close>

record 'a conv =
  msg_net :: "'a mat \<Rightarrow> 'a mat"
  aggr_net :: "'a mat \<Rightarrow> 'a mat"
  aggr :: reducer
  flow :: flow
  neighbor_loc :: string
  self_val :: bool

definition EdgeConvBase_init ::
  "('a mat \<Rightarrow> 'a mat) \<Rightarrow> ('a mat \<Rightarrow> 'a mat) \<Rightarrow> reducer \<Rightarrow> string \<Rightarrow> bool \<Rightarrow> 'a conv" where
  "EdgeConvBase_init msg_net' aggr_net' aggr' neighbor_loc' self_val' =
     \<lparr>msg_net = msg_net', aggr_net = aggr_net', aggr = aggr', flow = Target_to_source,
      neighbor_loc = neighbor_loc', self_val = self_val'\<rparr>"

text \<open>The tensor \<open>inputs\<close> of \<open>EdgeConvBase.message\<close>, and the call of the network.\<close>

definition EdgeConvBase_inputs ::
  "'a runtime \<Rightarrow> 'a conv \<Rightarrow> 'a tensor \<Rightarrow> 'a tensor \<Rightarrow> 'a mat \<Rightarrow> 'a mat \<Rightarrow> error + 'a mat" where
  "EdgeConvBase_inputs rt L x_i x_j pos_i pos_j =
     (if neighbor_loc L = ''distance'' then
        (let dist = norm_dim1 rt (sub_mat rt pos_j pos_i)
         in and_then (as_mat x_i) (\<lambda>a. and_then (as_mat x_j) (\<lambda>b. cat1 [a, b, dist])))
      else if neighbor_loc L = ''position'' then
        and_then (as_mat x_i) (\<lambda>a. and_then (as_mat x_j) (\<lambda>b.
          cat1 [a, b, sub_mat rt pos_j pos_i]))
      else if neighbor_loc L = ''radial'' then
        (let dist = norm_dim1 rt (sub_mat rt pos_j pos_i);
             pos_vec = sub_mat rt pos_j pos_i
         in and_then (atan2_col rt pos_vec) (\<lambda>angle.
              and_then (as_mat x_i) (\<lambda>a. and_then (as_mat x_j) (\<lambda>b.
                cat1 [a, b, dist, angle]))))
      else Inl NameError)"

definition EdgeConvBase_message ::
  "'a runtime \<Rightarrow> 'a conv \<Rightarrow> 'a tensor \<Rightarrow> 'a tensor \<Rightarrow> 'a mat \<Rightarrow> 'a mat \<Rightarrow> error + 'a mat" where
  "EdgeConvBase_message rt L x_i x_j pos_i pos_j =
     and_then (EdgeConvBase_inputs rt L x_i x_j pos_i pos_j) (\<lambda>inputs. Inr (msg_net L inputs))"

text \<open>The tensor \<open>inp\<close> of \<open>EdgeConvBase.update\<close>, and the call of the network.\<close>

definition EdgeConvBase_update_inp :: "'a conv \<Rightarrow> 'a mat \<Rightarrow> 'a tensor \<Rightarrow> error + 'a mat" where
  "EdgeConvBase_update_inp L aggr_out x =
     (if self_val L then and_then (as_mat x) (\<lambda>a. cat1 [a, aggr_out]) else Inr aggr_out)"

definition EdgeConvBase_update :: "'a conv \<Rightarrow> 'a mat \<Rightarrow> 'a tensor \<Rightarrow> error + 'a mat" where
  "EdgeConvBase_update L aggr_out x =
     and_then (EdgeConvBase_update_inp L aggr_out x) (\<lambda>inp. Inr (aggr_net L inp))"

text \<open>
  What \<open>propagate\<close> gathers for \<open>message(x_i, x_j, pos_i, pos_j)\<close>: the number of nodes
  and the four gathered tensors.
\<close>

definition EdgeConvBase_collect ::
  "'a conv \<Rightarrow> (int \<times> int) list \<Rightarrow> 'a tensor \<Rightarrow> 'a mat
     \<Rightarrow> error + (nat \<times> 'a tensor \<times> 'a tensor \<times> 'a mat \<times> 'a mat)" where
  "EdgeConvBase_collect L edge_index x pos =
     and_then (node_size x) (\<lambda>n.
     and_then (index_select x (edge_i (flow L) edge_index)) (\<lambda>x_i.
     and_then (index_select x (edge_j (flow L) edge_index)) (\<lambda>x_j.
     if nrows pos \<noteq> n then Inl LibraryError
     else and_then (mat_index_select pos (edge_i (flow L) edge_index)) (\<lambda>pos_i.
          and_then (mat_index_select pos (edge_j (flow L) edge_index)) (\<lambda>pos_j.
          Inr (n, x_i, x_j, pos_i, pos_j))))))"

definition EdgeConvBase_propagate ::
  "'a runtime \<Rightarrow> 'a conv \<Rightarrow> 'a edge_index \<Rightarrow> 'a tensor \<Rightarrow> 'a mat \<Rightarrow> error + 'a mat" where
  "EdgeConvBase_propagate rt L edge_index x pos =
     (case edge_index of
        FloatIndex _ \<Rightarrow> Inl LibraryError
      | LongIndex ei \<Rightarrow>
          and_then (EdgeConvBase_collect L ei x pos) (\<lambda>(n, x_i, x_j, pos_i, pos_j).
          and_then (EdgeConvBase_message rt L x_i x_j pos_i pos_j) (\<lambda>out.
          and_then (scatter rt (aggr L) out (edge_i (flow L) ei) n) (\<lambda>aggr_out.
          EdgeConvBase_update L aggr_out x))))"

definition EdgeConvBase_forward ::
  "'a runtime \<Rightarrow> 'a conv \<Rightarrow> 'a tensor \<Rightarrow> 'a edge_index \<Rightarrow> 'a mat \<Rightarrow> error + 'a mat" where
  "EdgeConvBase_forward rt L x edge_index pos =
     (let x = (if dim x = 1 then unsqueeze_last x else x)
      in EdgeConvBase_propagate rt L edge_index x pos)"

section \<open>EdgeConvGeom\<close>

definition EdgeConvGeom_inputs :: "'a runtime \<Rightarrow> 'a mat \<Rightarrow> 'a mat \<Rightarrow> error + 'a mat" where
  "EdgeConvGeom_inputs rt pos_i pos_j =
     (let distances = norm_dim1 rt (sub_mat rt pos_j pos_i);
          positions = div_col rt (sub_mat rt pos_j pos_i) distances
      in cat1 [distances, positions])"

definition EdgeConvGeom_message ::
  "'a runtime \<Rightarrow> 'a conv \<Rightarrow> 'a mat \<Rightarrow> 'a mat \<Rightarrow> error + 'a mat" where
  "EdgeConvGeom_message rt L pos_i pos_j =
     and_then (EdgeConvGeom_inputs rt pos_i pos_j) (\<lambda>inputs. Inr (msg_net L inputs))"

definition EdgeConvGeom_update :: "'a conv \<Rightarrow> 'a mat \<Rightarrow> error + 'a mat" where
  "EdgeConvGeom_update L aggr_out = Inr (aggr_net L aggr_out)"

definition EdgeConvGeom_collect ::
  "'a conv \<Rightarrow> (int \<times> int) list \<Rightarrow> 'a mat \<Rightarrow> error + (nat \<times> 'a mat \<times> 'a mat)" where
  "EdgeConvGeom_collect L edge_index pos =
     and_then (mat_index_select pos (edge_i (flow L) edge_index)) (\<lambda>pos_i.
     and_then (mat_index_select pos (edge_j (flow L) edge_index)) (\<lambda>pos_j.
     Inr (nrows pos, pos_i, pos_j)))"

definition EdgeConvGeom_propagate ::
  "'a runtime \<Rightarrow> 'a conv \<Rightarrow> 'a edge_index \<Rightarrow> 'a mat \<Rightarrow> error + 'a mat" where
  "EdgeConvGeom_propagate rt L edge_index pos =
     (case edge_index of
        FloatIndex _ \<Rightarrow> Inl LibraryError
      | LongIndex ei \<Rightarrow>
          and_then (EdgeConvGeom_collect L ei pos) (\<lambda>(n, pos_i, pos_j).
          and_then (EdgeConvGeom_message rt L pos_i pos_j) (\<lambda>out.
          and_then (scatter rt (aggr L) out (edge_i (flow L) ei) n) (\<lambda>aggr_out.
          EdgeConvGeom_update L aggr_out))))"

definition EdgeConvGeom_forward ::
  "'a runtime \<Rightarrow> 'a conv \<Rightarrow> 'a edge_index \<Rightarrow> 'a mat \<Rightarrow> error + 'a mat" where
  "EdgeConvGeom_forward rt L edge_index pos = EdgeConvGeom_propagate rt L edge_index pos"

section \<open>EdgeConvWithCtx\<close>

definition EdgeConvWithCtx_inputs ::
  "'a runtime \<Rightarrow> 'a tensor \<Rightarrow> 'a tensor \<Rightarrow> 'a mat \<Rightarrow> 'a mat \<Rightarrow> 'a mat \<Rightarrow> error + 'a mat" where
  "EdgeConvWithCtx_inputs rt x_i x_j pos_i pos_j ctx_i =
     (let distances = norm_dim1 rt (sub_mat rt pos_j pos_i);
          positions = div_col rt (sub_mat rt pos_j pos_i) distances
      in and_then (as_mat x_i) (\<lambda>a. and_then (as_mat (sub_tensor rt x_j x_i)) (\<lambda>b.
           cat1 [a, b, distances, positions, ctx_i])))"

definition EdgeConvWithCtx_message ::
  "'a runtime \<Rightarrow> 'a conv \<Rightarrow> 'a tensor \<Rightarrow> 'a tensor \<Rightarrow> 'a mat \<Rightarrow> 'a mat \<Rightarrow> 'a mat
     \<Rightarrow> error + 'a mat" where
  "EdgeConvWithCtx_message rt L x_i x_j pos_i pos_j ctx_i =
     and_then (EdgeConvWithCtx_inputs rt x_i x_j pos_i pos_j ctx_i)
       (\<lambda>inputs. Inr (msg_net L inputs))"

definition EdgeConvWithCtx_update_inputs :: "'a mat \<Rightarrow> 'a mat \<Rightarrow> error + 'a mat" where
  "EdgeConvWithCtx_update_inputs aggr_out ctx = cat1 [aggr_out, ctx]"

definition EdgeConvWithCtx_update ::
  "'a conv \<Rightarrow> 'a mat \<Rightarrow> 'a tensor \<Rightarrow> 'a mat \<Rightarrow> 'a mat \<Rightarrow> error + 'a mat" where
  "EdgeConvWithCtx_update L aggr_out x pos ctx =
     and_then (EdgeConvWithCtx_update_inputs aggr_out ctx) (\<lambda>inputs. Inr (aggr_net L inputs))"

definition EdgeConvWithCtx_collect ::
  "'a conv \<Rightarrow> (int \<times> int) list \<Rightarrow> 'a tensor \<Rightarrow> 'a mat \<Rightarrow> 'a mat
     \<Rightarrow> error + (nat \<times> 'a tensor \<times> 'a tensor \<times> 'a mat \<times> 'a mat \<times> 'a mat)" where
  "EdgeConvWithCtx_collect L edge_index x pos ctx =
     and_then (node_size x) (\<lambda>n.
     and_then (index_select x (edge_i (flow L) edge_index)) (\<lambda>x_i.
     and_then (index_select x (edge_j (flow L) edge_index)) (\<lambda>x_j.
     if nrows pos \<noteq> n then Inl LibraryError
     else and_then (mat_index_select pos (edge_i (flow L) edge_index)) (\<lambda>pos_i.
          and_then (mat_index_select pos (edge_j (flow L) edge_index)) (\<lambda>pos_j.
          if nrows ctx \<noteq> n then Inl LibraryError
          else and_then (mat_index_select ctx (edge_i (flow L) edge_index)) (\<lambda>ctx_i.
               Inr (n, x_i, x_j, pos_i, pos_j, ctx_i)))))))"

definition EdgeConvWithCtx_propagate ::
  "'a runtime \<Rightarrow> 'a conv \<Rightarrow> 'a edge_index \<Rightarrow> 'a tensor \<Rightarrow> 'a mat \<Rightarrow> 'a mat
     \<Rightarrow> error + 'a mat" where
  "EdgeConvWithCtx_propagate rt L edge_index x pos ctx =
     (case edge_index of
        FloatIndex _ \<Rightarrow> Inl LibraryError
      | LongIndex ei \<Rightarrow>
          and_then (EdgeConvWithCtx_collect L ei x pos ctx)
            (\<lambda>(n, x_i, x_j, pos_i, pos_j, ctx_i).
          and_then (EdgeConvWithCtx_message rt L x_i x_j pos_i pos_j ctx_i) (\<lambda>out.
          and_then (scatter rt (aggr L) out (edge_i (flow L) ei) n) (\<lambda>aggr_out.
          EdgeConvWithCtx_update L aggr_out x pos ctx))))"

definition EdgeConvWithCtx_forward ::
  "'a runtime \<Rightarrow> 'a conv \<Rightarrow> 'a tensor \<Rightarrow> 'a edge_index \<Rightarrow> 'a mat \<Rightarrow> 'a mat
     \<Rightarrow> error + 'a mat" where
  "EdgeConvWithCtx_forward rt L x edge_index pos ctx =
     (let x = (if dim x = 1 then unsqueeze_last x else x)
      in EdgeConvWithCtx_propagate rt L edge_index x pos ctx)"

section \<open>The models\<close>

text \<open>
  \<open>edge_index.long()\<close> converts the elements of the edge index to 64-bit integers: an
  edge index of 64-bit integers is returned as it is, and every element of an edge index of
  floating-point numbers is converted by the runtime.
\<close>

definition long :: "'a runtime \<Rightarrow> 'a edge_index \<Rightarrow> 'a edge_index" where
  "long rt edge_index =
     (case edge_index of
        LongIndex ei \<Rightarrow> LongIndex ei
      | FloatIndex es \<Rightarrow> LongIndex (map (\<lambda>(a, b). (f_long rt a, f_long rt b)) es))"

record 'a MPNNModel =
  mpnn_L1 :: "'a conv"

definition MPNNModel_init :: "('a mat \<Rightarrow> 'a mat) \<Rightarrow> ('a mat \<Rightarrow> 'a mat) \<Rightarrow> 'a MPNNModel" where
  "MPNNModel_init msg_net' aggr_net' =
     \<lparr>mpnn_L1 = EdgeConvBase_init msg_net' aggr_net' Mean ''position'' True\<rparr>"

definition MPNNModel_forward ::
  "'a runtime \<Rightarrow> 'a MPNNModel \<Rightarrow> 'a tensor \<Rightarrow> 'a edge_index \<Rightarrow> 'a mat \<Rightarrow> error + 'a mat" where
  "MPNNModel_forward rt M x edge_index pos =
     EdgeConvBase_forward rt (mpnn_L1 M) x (long rt edge_index) pos"

record 'a M3Model =
  m3_L1 :: "'a conv"
  m3_L2 :: "'a conv"

definition M3Model_init ::
  "('a mat \<Rightarrow> 'a mat) \<Rightarrow> ('a mat \<Rightarrow> 'a mat) \<Rightarrow> ('a mat \<Rightarrow> 'a mat) \<Rightarrow> ('a mat \<Rightarrow> 'a mat)
     \<Rightarrow> 'a M3Model" where
  "M3Model_init L1_msg_net L1_aggr_net L2_msg_net L2_aggr_net =
     \<lparr>m3_L1 = EdgeConvBase_init L1_msg_net L1_aggr_net Mean ''position'' True,
      m3_L2 = EdgeConvBase_init L2_msg_net L2_aggr_net Mean ''position'' True\<rparr>"

definition M3Model_forward ::
  "'a runtime \<Rightarrow> 'a M3Model \<Rightarrow> 'a tensor \<Rightarrow> 'a edge_index \<Rightarrow> 'a mat \<Rightarrow> error + 'a mat" where
  "M3Model_forward rt M x edge_index pos =
     and_then (EdgeConvGeom_forward rt (m3_L1 M) (long rt edge_index) pos) (\<lambda>context.
       EdgeConvWithCtx_forward rt (m3_L2 M) x (long rt edge_index) pos context)"

section \<open>Vocabulary of the properties\<close>

text \<open>
  An edge index is valid for \<open>n\<close> nodes when every endpoint of every edge is a node.
\<close>

definition valid_edges :: "nat \<Rightarrow> (int \<times> int) list \<Rightarrow> bool" where
  "valid_edges n ei =
     list_all (\<lambda>e. 0 \<le> fst e \<and> fst e < int n \<and> 0 \<le> snd e \<and> snd e < int n) ei"

text \<open>
  The feature vector of node \<open>i\<close>; row \<open>i\<close> of a matrix, the position or the context
  of node \<open>i\<close>; the displacement \<open>position_j - position_i\<close>; and a displacement
  divided by its own norm.
\<close>

definition feature :: "'a tensor \<Rightarrow> int \<Rightarrow> 'a list" where
  "feature x i = slice x (nat i)"

definition row :: "'a mat \<Rightarrow> int \<Rightarrow> 'a list" where
  "row m i = rows m ! nat i"

definition delta :: "'a runtime \<Rightarrow> 'a mat \<Rightarrow> int \<Rightarrow> int \<Rightarrow> 'a list" where
  "delta rt pos i j = map2 (f_sub rt) (row pos j) (row pos i)"

definition unit_direction :: "'a runtime \<Rightarrow> 'a list \<Rightarrow> 'a list" where
  "unit_direction rt d = map (\<lambda>v. f_div rt v (f_norm rt d)) d"

text \<open>
  The tensor \<open>inputs\<close> that \<open>message\<close> builds when \<open>propagate\<close> calls it on an edge
  index of integers: one row per edge, in the order of the edge index.
\<close>

definition EdgeConvBase_edge_inputs ::
  "'a runtime \<Rightarrow> 'a conv \<Rightarrow> (int \<times> int) list \<Rightarrow> 'a tensor \<Rightarrow> 'a mat \<Rightarrow> error + 'a mat" where
  "EdgeConvBase_edge_inputs rt L edge_index x pos =
     and_then (EdgeConvBase_collect L edge_index x pos) (\<lambda>(n, x_i, x_j, pos_i, pos_j).
       EdgeConvBase_inputs rt L x_i x_j pos_i pos_j)"


definition EdgeConvWithCtx_edge_inputs ::
  "'a runtime \<Rightarrow> 'a conv \<Rightarrow> (int \<times> int) list \<Rightarrow> 'a tensor \<Rightarrow> 'a mat \<Rightarrow> 'a mat
     \<Rightarrow> error + 'a mat" where
  "EdgeConvWithCtx_edge_inputs rt L edge_index x pos ctx =
     and_then (EdgeConvWithCtx_collect L edge_index x pos ctx)
       (\<lambda>(n, x_i, x_j, pos_i, pos_j, ctx_i). EdgeConvWithCtx_inputs rt x_i x_j pos_i pos_j ctx_i)"

text \<open>The number of columns of a tensor that was computed without an error.\<close>

definition width :: "error + 'a mat \<Rightarrow> error + nat" where
  "width r = and_then r (\<lambda>m. Inr (ncols m))"

text \<open>
  The two layers of \<open>M3Model\<close> called by hand, one after the other, on the inputs as
  they are: the context from the geometric layer, then the layer with context.
\<close>

definition two_layers_in_sequence ::
  "'a runtime \<Rightarrow> 'a conv \<Rightarrow> 'a conv \<Rightarrow> 'a tensor \<Rightarrow> 'a edge_index \<Rightarrow> 'a mat
     \<Rightarrow> error + 'a mat" where
  "two_layers_in_sequence rt GeometricConv ContextConv x edge_index pos =
     (case EdgeConvGeom_forward rt GeometricConv edge_index pos of
        Inl e \<Rightarrow> Inl e
      | Inr context \<Rightarrow> EdgeConvWithCtx_forward rt ContextConv x edge_index pos context)"

text \<open>
  A runtime over the integers, to evaluate the layers on concrete inputs: exact addition
  and subtraction, integer division, the 1-norm in the place of the 2-norm, and in the
  place of \<open>atan2\<close> a function that keeps its two arguments apart.
\<close>

definition int_runtime :: "int runtime" where
  "int_runtime =
     \<lparr>f_zero = 0, f_add = (\<lambda>a b. a + b), f_sub = (\<lambda>a b. a - b), f_div = (\<lambda>a b. a div b),
      f_norm = (\<lambda>r. sum_list (map abs r)), f_atan2 = (\<lambda>y x. 10 * y + x),
      f_count = int, f_max = (\<lambda>vs. fold max vs 0), f_long = (\<lambda>v. v)\<rparr>"










text \<open>
  Three nodes at \<open>(0,0)\<close>, \<open>(1,0)\<close>, \<open>(0,1)\<close> with one feature each, the edges
  \<open>0 \<rightarrow> 1\<close> and \<open>0 \<rightarrow> 2\<close>, and a context of one column.
\<close>

definition scenario_x :: "int tensor" where
  "scenario_x = Tensor [3, 1] [10, 20, 30]"

definition scenario_pos :: "int mat" where
  "scenario_pos = Mat 2 [[0, 0], [1, 0], [0, 1]]"

definition scenario_edges :: "(int \<times> int) list" where
  "scenario_edges = [(0, 1), (0, 2)]"

definition scenario_ctx :: "int mat" where
  "scenario_ctx = Mat 1 [[7], [8], [9]]"

text \<open>A layer over the integers whose two networks return their argument.\<close>

definition plain_layer :: "string \<Rightarrow> bool \<Rightarrow> int conv" where
  "plain_layer mode sv = EdgeConvBase_init (\<lambda>m. m) (\<lambda>m. m) Mean mode sv"

section \<open>Lemmas on the tensor operations\<close>

lemma and_then_Inl [simp]: "and_then (Inl e) f = Inl e"
  by (simp add: and_then_def)

lemma and_then_Inr [simp]: "and_then (Inr v) f = f v"
  by (simp add: and_then_def)

lemma take_drop_concat:
  "\<forall>p \<in> set ps. length p = c \<Longrightarrow> k < length ps \<Longrightarrow> take c (drop (k * c) (concat ps)) = ps ! k"
proof (induction ps arbitrary: k)
  case Nil
  then show ?case by simp
next
  case (Cons p ps)
  show ?case
  proof (cases k)
    case 0
    with Cons.prems show ?thesis by simp
  next
    case (Suc k')
    with Cons show ?thesis by simp
  qed
qed

lemma length_slice:
  assumes "wf_tensor t" "shape t = n # rest" "i < n"
  shows "length (slice t i) = prod_list rest"
proof -
  have "Suc i \<le> n" using assms(3) by simp
  then have "Suc i * prod_list rest \<le> n * prod_list rest"
    by (rule mult_le_mono1)
  then show ?thesis
    using assms(1,2) by (simp add: slice_def slice_len_def wf_tensor_def)
qed

lemma as_mat_concat:
  assumes "\<forall>p \<in> set ps. length p = c"
  shows "as_mat (Tensor [length ps, c] (concat ps)) = Inr (Mat c ps)"
proof -
  have "slice (Tensor [length ps, c] (concat ps)) k = ps ! k" if "k < length ps" for k
    using take_drop_concat [OF assms that] by (simp add: slice_def slice_len_def)
  then have "map (slice (Tensor [length ps, c] (concat ps))) [0..<length ps] = ps"
    by (intro nth_equalityI) simp_all
  then show ?thesis
    by (simp add: as_mat_def)
qed

lemma index_select_ok:
  assumes "shape t = [n, c]" "list_all (\<lambda>i. 0 \<le> i \<and> i < int n) idx"
  shows "index_select t idx = Inr (Tensor [length idx, c] (concat (map (feature t) idx)))"
  using assms
  by (simp add: index_select_def feature_def [abs_def] slice_def slice_len_def Let_def)

lemma feature_length:
  assumes "wf_tensor x" "shape x = [n, F]" "0 \<le> i" "i < int n"
  shows "length (feature x i) = F"
  using length_slice [OF assms(1,2), of "nat i"] assms(3,4) by (simp add: feature_def)

lemma as_mat_features:
  assumes "wf_tensor x" "shape x = [n, F]" "list_all (\<lambda>i. 0 \<le> i \<and> i < int n) (map g ei)"
  shows "as_mat (Tensor [length ei, F] (concat (map (\<lambda>e. feature x (g e)) ei)))
         = Inr (Mat F (map (\<lambda>e. feature x (g e)) ei))"
proof -
  have "\<forall>p \<in> set (map (\<lambda>e. feature x (g e)) ei). length p = F"
    using assms(3) feature_length [OF assms(1,2)] by (auto simp: list_all_iff)
  from as_mat_concat [OF this] show ?thesis by simp
qed

lemma mat_index_select_ok:
  assumes "list_all (\<lambda>i. 0 \<le> i \<and> i < int (nrows m)) idx"
  shows "mat_index_select m idx = Inr (Mat (ncols m) (map (\<lambda>i. rows m ! nat i) idx))"
  using assms by (simp add: mat_index_select_def)

lemma valid_edges_fst: "valid_edges n ei \<Longrightarrow> list_all (\<lambda>i. 0 \<le> i \<and> i < int n) (map fst ei)"
  by (simp add: valid_edges_def list_all_iff)

lemma valid_edges_snd: "valid_edges n ei \<Longrightarrow> list_all (\<lambda>i. 0 \<le> i \<and> i < int n) (map snd ei)"
  by (simp add: valid_edges_def list_all_iff)

lemma sub_mat_maps:
  "sub_mat rt (Mat c (map f xs)) (Mat d (map g xs)) = Mat c (map (\<lambda>x. map2 (f_sub rt) (f x) (g x)) xs)"
  by (simp add: sub_mat_def zip_map_map zip_same_conv_map)

lemma norm_dim1_maps:
  "norm_dim1 rt (Mat c (map f xs)) = Mat 1 (map (\<lambda>x. [f_norm rt (f x)]) xs)"
  by (simp add: norm_dim1_def)

lemma div_col_maps:
  "div_col rt (Mat c (map f xs)) (Mat d (map (\<lambda>x. [g x]) xs))
     = Mat c (map (\<lambda>x. map (\<lambda>v. f_div rt v (g x)) (f x)) xs)"
  by (simp add: div_col_def zip_map_map zip_same_conv_map)

lemma atan2_col_maps:
  "2 \<le> c \<Longrightarrow> atan2_col rt (Mat c (map f xs)) = Inr (Mat 1 (map (\<lambda>x. [f_atan2 rt (f x ! 1) (f x ! 0)]) xs))"
  by (simp add: atan2_col_def)

lemma cat1_maps:
  assumes "fs \<noteq> []"
  shows "cat1 (map (\<lambda>p. Mat (fst p) (map (snd p) xs)) fs)
         = Inr (Mat (sum_list (map fst fs)) (map (\<lambda>x. concat (map (\<lambda>p. snd p x) fs)) xs))"
proof -
  let ?ms = "map (\<lambda>p. Mat (fst p) (map (snd p) xs)) fs"
  obtain p ps where fs: "fs = p # ps" using assms by (cases fs) auto
  have "concat (map (\<lambda>a. rows a ! k) ?ms) = concat (map (\<lambda>p. snd p (xs ! k)) fs)"
    if "k < length xs" for k
    using that by (simp add: comp_def)
  then have r: "map (\<lambda>k. concat (map (\<lambda>a. rows a ! k) ?ms)) [0..<length xs]
        = map (\<lambda>x. concat (map (\<lambda>p. snd p x) fs)) xs"
    by (intro nth_equalityI) simp_all
  have c: "map ncols ?ms = map fst fs"
    by (simp add: comp_def)
  have a: "list_all (\<lambda>a. nrows a = length xs) ?ms"
    by (simp add: list_all_iff nrows_def)
  have "cat1 ?ms = Inr (Mat (sum_list (map ncols ?ms))
           (map (\<lambda>k. concat (map (\<lambda>a. rows a ! k) ?ms)) [0..<length xs]))"
    using a by (simp add: cat1_def fs nrows_def)
  then show ?thesis
    by (simp only: r c)
qed


lemma cat1_3:
  "cat1 [Mat c1 (map f1 xs), Mat c2 (map f2 xs), Mat c3 (map f3 xs)]
     = Inr (Mat (c1 + c2 + c3) (map (\<lambda>x. f1 x @ f2 x @ f3 x) xs))"
  using cat1_maps [of "[(c1, f1), (c2, f2), (c3, f3)]" xs] by simp

lemma cat1_4:
  "cat1 [Mat c1 (map f1 xs), Mat c2 (map f2 xs), Mat c3 (map f3 xs), Mat c4 (map f4 xs)]
     = Inr (Mat (c1 + c2 + c3 + c4) (map (\<lambda>x. f1 x @ f2 x @ f3 x @ f4 x) xs))"
  using cat1_maps [of "[(c1, f1), (c2, f2), (c3, f3), (c4, f4)]" xs] by simp

lemma cat1_5:
  "cat1 [Mat c1 (map f1 xs), Mat c2 (map f2 xs), Mat c3 (map f3 xs), Mat c4 (map f4 xs),
         Mat c5 (map f5 xs)]
     = Inr (Mat (c1 + c2 + c3 + c4 + c5) (map (\<lambda>x. f1 x @ f2 x @ f3 x @ f4 x @ f5 x) xs))"
  using cat1_maps [of "[(c1, f1), (c2, f2), (c3, f3), (c4, f4), (c5, f5)]" xs] by simp


lemma map2_concat:
  "\<forall>x \<in> set xs. length (f x) = length (g x) \<Longrightarrow>
     map2 h (concat (map f xs)) (concat (map g xs)) = concat (map (\<lambda>x. map2 h (f x) (g x)) xs)"
  by (induction xs) simp_all

lemma EdgeConvBase_collect_ok:
  assumes "flow L = Target_to_source" "shape x = [n, F]" "nrows pos = n" "valid_edges n ei"
  shows "EdgeConvBase_collect L ei x pos =
           Inr (n, Tensor [length ei, F] (concat (map (\<lambda>e. feature x (fst e)) ei)),
                   Tensor [length ei, F] (concat (map (\<lambda>e. feature x (snd e)) ei)),
                   Mat (ncols pos) (map (\<lambda>e. row pos (fst e)) ei),
                   Mat (ncols pos) (map (\<lambda>e. row pos (snd e)) ei))"
proof -
  have i: "list_all (\<lambda>i. 0 \<le> i \<and> i < int n) (map fst ei)"
    and j: "list_all (\<lambda>i. 0 \<le> i \<and> i < int n) (map snd ei)"
    using assms(4) by (rule valid_edges_fst, rule valid_edges_snd)
  have "index_select x (map fst ei) = Inr (Tensor [length ei, F] (concat (map (\<lambda>e. feature x (fst e)) ei)))"
    using index_select_ok [OF assms(2) i] by (simp add: comp_def)
  moreover have "index_select x (map snd ei) = Inr (Tensor [length ei, F] (concat (map (\<lambda>e. feature x (snd e)) ei)))"
    using index_select_ok [OF assms(2) j] by (simp add: comp_def)
  moreover have "mat_index_select pos (map fst ei) = Inr (Mat (ncols pos) (map (\<lambda>e. row pos (fst e)) ei))"
    using mat_index_select_ok [of pos "map fst ei"] i assms(3) by (simp add: row_def comp_def)
  moreover have "mat_index_select pos (map snd ei) = Inr (Mat (ncols pos) (map (\<lambda>e. row pos (snd e)) ei))"
    using mat_index_select_ok [of pos "map snd ei"] j assms(3) by (simp add: row_def comp_def)
  ultimately show ?thesis
    using assms(1,2,3) by (simp add: EdgeConvBase_collect_def node_size_def edge_i_def edge_j_def)
qed


lemma EdgeConvWithCtx_collect_ok:
  assumes "flow L = Target_to_source" "shape x = [n, F]" "nrows pos = n" "nrows ctx = n"
    and "valid_edges n ei"
  shows "EdgeConvWithCtx_collect L ei x pos ctx =
           Inr (n, Tensor [length ei, F] (concat (map (\<lambda>e. feature x (fst e)) ei)),
                   Tensor [length ei, F] (concat (map (\<lambda>e. feature x (snd e)) ei)),
                   Mat (ncols pos) (map (\<lambda>e. row pos (fst e)) ei),
                   Mat (ncols pos) (map (\<lambda>e. row pos (snd e)) ei),
                   Mat (ncols ctx) (map (\<lambda>e. row ctx (fst e)) ei))"
proof -
  have i: "list_all (\<lambda>i. 0 \<le> i \<and> i < int n) (map fst ei)"
    and j: "list_all (\<lambda>i. 0 \<le> i \<and> i < int n) (map snd ei)"
    using assms(5) by (rule valid_edges_fst, rule valid_edges_snd)
  have "index_select x (map fst ei) = Inr (Tensor [length ei, F] (concat (map (\<lambda>e. feature x (fst e)) ei)))"
    using index_select_ok [OF assms(2) i] by (simp add: comp_def)
  moreover have "index_select x (map snd ei) = Inr (Tensor [length ei, F] (concat (map (\<lambda>e. feature x (snd e)) ei)))"
    using index_select_ok [OF assms(2) j] by (simp add: comp_def)
  moreover have "mat_index_select pos (map fst ei) = Inr (Mat (ncols pos) (map (\<lambda>e. row pos (fst e)) ei))"
    using mat_index_select_ok [of pos "map fst ei"] i assms(3) by (simp add: row_def comp_def)
  moreover have "mat_index_select pos (map snd ei) = Inr (Mat (ncols pos) (map (\<lambda>e. row pos (snd e)) ei))"
    using mat_index_select_ok [of pos "map snd ei"] j assms(3) by (simp add: row_def comp_def)
  moreover have "mat_index_select ctx (map fst ei) = Inr (Mat (ncols ctx) (map (\<lambda>e. row ctx (fst e)) ei))"
    using mat_index_select_ok [of ctx "map fst ei"] i assms(4) by (simp add: row_def comp_def)
  ultimately show ?thesis
    using assms(1,2,3,4)
    by (simp add: EdgeConvWithCtx_collect_def node_size_def edge_i_def edge_j_def)
qed

lemma as_mat_feature_diff:
  assumes "wf_tensor x" "shape x = [n, F]" "valid_edges n ei"
  shows "as_mat (sub_tensor rt (Tensor [length ei, F] (concat (map (\<lambda>e. feature x (snd e)) ei)))
                               (Tensor [length ei, F] (concat (map (\<lambda>e. feature x (fst e)) ei))))
         = Inr (Mat F (map (\<lambda>e. map2 (f_sub rt) (feature x (snd e)) (feature x (fst e))) ei))"
proof -
  have len: "length (feature x (fst e)) = F \<and> length (feature x (snd e)) = F" if "e \<in> set ei" for e
    using assms(3) that feature_length [OF assms(1,2)] by (simp add: valid_edges_def list_all_iff)
  have "map2 (f_sub rt) (concat (map (\<lambda>e. feature x (snd e)) ei))
                        (concat (map (\<lambda>e. feature x (fst e)) ei))
        = concat (map (\<lambda>e. map2 (f_sub rt) (feature x (snd e)) (feature x (fst e))) ei)"
    using len by (intro map2_concat) simp
  moreover have "as_mat (Tensor [length (map (\<lambda>e. map2 (f_sub rt) (feature x (snd e)) (feature x (fst e))) ei), F]
           (concat (map (\<lambda>e. map2 (f_sub rt) (feature x (snd e)) (feature x (fst e))) ei)))
        = Inr (Mat F (map (\<lambda>e. map2 (f_sub rt) (feature x (snd e)) (feature x (fst e))) ei))"
    using len by (intro as_mat_concat) simp
  ultimately show ?thesis
    by (simp add: sub_tensor_def)
qed

lemma concat_singletons: "concat (map (\<lambda>v. [v]) xs) = xs"
  by (induction xs) simp_all

lemma cat1_rows:
  assumes "nrows a = nrows b"
  shows "cat1 [a, b] = Inr (Mat (ncols a + ncols b) (map (\<lambda>k. rows a ! k @ rows b ! k) [0..<nrows a]))"
  using assms by (simp add: cat1_def)

lemma scatter_shape:
  assumes "scatter rt r src index n = Inr A"
  shows "nrows A = n \<and> ncols A = ncols src"
  using assms by (auto simp: scatter_def nrows_def split: if_splits)

lemma and_then_no_NameError:
  "r \<noteq> Inl NameError \<Longrightarrow> (\<And>v. f v \<noteq> Inl NameError) \<Longrightarrow> and_then r f \<noteq> Inl NameError"
  by (cases r) simp_all

lemma cat1_no_NameError: "cat1 ms \<noteq> Inl NameError"
  by (simp add: cat1_def split: list.splits)

lemma mat_index_select_no_NameError: "mat_index_select a idx \<noteq> Inl NameError"
  by (simp add: mat_index_select_def)

lemma scatter_no_NameError: "scatter rt r src index n \<noteq> Inl NameError"
  by (simp add: scatter_def)

section \<open>The inputs of the message networks, edge by edge\<close>

lemma displacement_maps:
  "sub_mat rt (Mat c (map (\<lambda>e. row pos (snd e)) ei)) (Mat c (map (\<lambda>e. row pos (fst e)) ei))
     = Mat c (map (\<lambda>e. delta rt pos (fst e) (snd e)) ei)"
  by (simp add: sub_mat_maps delta_def)

lemma EdgeConvBase_edge_inputs_position:
  assumes "flow L = Target_to_source" "wf_tensor x" "shape x = [n, F]" "nrows pos = n"
    and "valid_edges n ei" "neighbor_loc L = ''position''"
  shows "EdgeConvBase_edge_inputs rt L ei x pos
         = Inr (Mat (F + F + ncols pos)
             (map (\<lambda>(i, j). feature x i @ feature x j @ delta rt pos i j) ei))"
  using assms(6)
  by (simp add: EdgeConvBase_edge_inputs_def EdgeConvBase_collect_ok [OF assms(1,3,4,5)]
      EdgeConvBase_inputs_def displacement_maps cat1_3 case_prod_unfold
      as_mat_features [OF assms(2,3) valid_edges_fst [OF assms(5)]]
      as_mat_features [OF assms(2,3) valid_edges_snd [OF assms(5)]])

lemma EdgeConvBase_edge_inputs_distance:
  assumes "flow L = Target_to_source" "wf_tensor x" "shape x = [n, F]" "nrows pos = n"
    and "valid_edges n ei" "neighbor_loc L = ''distance''"
  shows "EdgeConvBase_edge_inputs rt L ei x pos
         = Inr (Mat (F + F + 1)
             (map (\<lambda>(i, j). feature x i @ feature x j @ [f_norm rt (delta rt pos i j)]) ei))"
  using assms(6)
  by (simp add: EdgeConvBase_edge_inputs_def EdgeConvBase_collect_ok [OF assms(1,3,4,5)]
      EdgeConvBase_inputs_def displacement_maps norm_dim1_maps cat1_3 case_prod_unfold
      as_mat_features [OF assms(2,3) valid_edges_fst [OF assms(5)]]
      as_mat_features [OF assms(2,3) valid_edges_snd [OF assms(5)]])

lemma EdgeConvBase_edge_inputs_radial:
  assumes "flow L = Target_to_source" "wf_tensor x" "shape x = [n, F]" "nrows pos = n"
    and "valid_edges n ei" "neighbor_loc L = ''radial''" "2 \<le> ncols pos"
  shows "EdgeConvBase_edge_inputs rt L ei x pos
         = Inr (Mat (F + F + 1 + 1)
             (map (\<lambda>(i, j). feature x i @ feature x j @
                     [f_norm rt (delta rt pos i j),
                      f_atan2 rt (delta rt pos i j ! 1) (delta rt pos i j ! 0)]) ei))"
  using assms(6)
  by (simp add: EdgeConvBase_edge_inputs_def EdgeConvBase_collect_ok [OF assms(1,3,4,5)]
      EdgeConvBase_inputs_def displacement_maps norm_dim1_maps atan2_col_maps [OF assms(7)]
      cat1_4 case_prod_unfold
      as_mat_features [OF assms(2,3) valid_edges_fst [OF assms(5)]]
      as_mat_features [OF assms(2,3) valid_edges_snd [OF assms(5)]])


lemma EdgeConvWithCtx_edge_inputs_ok:
  assumes "flow L = Target_to_source" "wf_tensor x" "shape x = [n, F]" "nrows pos = n"
    and "nrows ctx = n" "valid_edges n ei"
  shows "EdgeConvWithCtx_edge_inputs rt L ei x pos ctx
         = Inr (Mat (F + F + 1 + ncols pos + ncols ctx)
             (map (\<lambda>(i, j). feature x i @ map2 (f_sub rt) (feature x j) (feature x i)
                     @ [f_norm rt (delta rt pos i j)] @ unit_direction rt (delta rt pos i j)
                     @ row ctx i) ei))"
  by (simp add: EdgeConvWithCtx_edge_inputs_def
      EdgeConvWithCtx_collect_ok [OF assms(1,3,4,5,6)] EdgeConvWithCtx_inputs_def Let_def
      as_mat_features [OF assms(2,3) valid_edges_fst [OF assms(6)]]
      as_mat_feature_diff [OF assms(2,3,6)]
      sub_mat_maps norm_dim1_maps div_col_maps delta_def unit_direction_def cat1_5
      case_prod_unfold)

section \<open>Properties of the layers and the models\<close>

text \<open>
  C1, as the code has it. \<open>M3Model.forward\<close> returns exactly what the two layers return
  when they are called by hand in sequence with \<open>edge_index.long()\<close> in the place of the
  edge index: first the context from \<open>EdgeConvGeom\<close>, then \<open>EdgeConvWithCtx\<close> on the
  features and that context; an error of the first layer is the result. For an edge index
  of 64-bit integers that is the call by hand on the same inputs. For an edge index of
  floating-point numbers the call by hand on the same inputs raises in the first layer,
  whatever \<open>forward\<close> returns.
\<close>

theorem M3Model_forward_is_sequence_after_long:
  "M3Model_forward rt M x edge_index pos
     = two_layers_in_sequence rt (m3_L1 M) (m3_L2 M) x (long rt edge_index) pos
   \<and> (\<forall>ei. edge_index = LongIndex ei \<longrightarrow>
         M3Model_forward rt M x edge_index pos
           = two_layers_in_sequence rt (m3_L1 M) (m3_L2 M) x edge_index pos)
   \<and> (\<forall>es. edge_index = FloatIndex es \<longrightarrow>
         two_layers_in_sequence rt (m3_L1 M) (m3_L2 M) x edge_index pos = Inl LibraryError)"
proof -
  have s: "M3Model_forward rt M x edge_index pos
           = two_layers_in_sequence rt (m3_L1 M) (m3_L2 M) x (long rt edge_index) pos"
    by (simp add: M3Model_forward_def two_layers_in_sequence_def and_then_def)
  have l: "long rt (LongIndex ei) = LongIndex ei" for ei
    by (simp add: long_def)
  have f: "two_layers_in_sequence rt (m3_L1 M) (m3_L2 M) x (FloatIndex es) pos
           = Inl LibraryError" for es
    by (simp add: two_layers_in_sequence_def EdgeConvGeom_forward_def
        EdgeConvGeom_propagate_def)
  show ?thesis
    using s l f by auto
qed

theorem M3Model_forward_is_sequence_after_long_witness:
  "M3Model_forward int_runtime (M3Model_init (\<lambda>m. m) (\<lambda>m. m) (\<lambda>m. m) (\<lambda>m. m))
     scenario_x (LongIndex scenario_edges) scenario_pos
   = Inr (Mat 11 [[10, 15, 1, 0, 0, 1, 0, 0, 1, 0, 0],
                  [0, 0, 0, 0, 0, 0, 0, 0, 0, 0, 0],
                  [0, 0, 0, 0, 0, 0, 0, 0, 0, 0, 0]])"
proof -
  have "two_layers_in_sequence int_runtime (plain_layer ''position'' True)
          (plain_layer ''position'' True) scenario_x (LongIndex scenario_edges) scenario_pos
        = Inr (Mat 11 [[10, 15, 1, 0, 0, 1, 0, 0, 1, 0, 0],
                       [0, 0, 0, 0, 0, 0, 0, 0, 0, 0, 0],
                       [0, 0, 0, 0, 0, 0, 0, 0, 0, 0, 0]])"
    by code_simp
  then show ?thesis
    using M3Model_forward_is_sequence_after_long [of int_runtime
        "M3Model_init (\<lambda>m. m) (\<lambda>m. m) (\<lambda>m. m) (\<lambda>m. m)" scenario_x
        "LongIndex scenario_edges" scenario_pos]
    by (simp add: M3Model_init_def plain_layer_def long_def)
qed

text \<open>
  C1 as stated fails on an edge index of floating-point numbers. With the two edges
  \<open>0 \<rightarrow> 1\<close> and \<open>0 \<rightarrow> 2\<close> given as floating-point numbers, \<open>forward\<close> converts them and
  returns the output, while the two layers called by hand on the same edge index raise.
\<close>

theorem M3Model_forward_is_sequence_counterexample:
  "M3Model_forward int_runtime (M3Model_init (\<lambda>m. m) (\<lambda>m. m) (\<lambda>m. m) (\<lambda>m. m))
     scenario_x (FloatIndex [(0, 1), (0, 2)]) scenario_pos
   = Inr (Mat 11 [[10, 15, 1, 0, 0, 1, 0, 0, 1, 0, 0],
                  [0, 0, 0, 0, 0, 0, 0, 0, 0, 0, 0],
                  [0, 0, 0, 0, 0, 0, 0, 0, 0, 0, 0]])
   \<and> two_layers_in_sequence int_runtime (plain_layer ''position'' True)
       (plain_layer ''position'' True) scenario_x (FloatIndex [(0, 1), (0, 2)]) scenario_pos
     = Inl LibraryError"
  by code_simp

text \<open>
  C2. Under the \<open>target_to_source\<close> flow, for every edge \<open>(i, j)\<close> of a valid edge
  index, the row that \<open>EdgeConvBase.message\<close> builds for the edge is: in mode
  \<open>position\<close>, feature \<open>i\<close>, feature \<open>j\<close> and \<open>position_j - position_i\<close>; in mode
  \<open>distance\<close>, feature \<open>i\<close>, feature \<open>j\<close> and the norm of that displacement, as one
  column; in mode \<open>radial\<close> (positions of two columns at least), feature \<open>i\<close>,
  feature \<open>j\<close>, the norm, and \<open>atan2\<close> of the displacement's entry 1 and entry 0. The
  message network is applied to the matrix of these rows, and its output is the result of
  \<open>message\<close>.
\<close>

theorem EdgeConvBase_message_inputs:
  assumes "flow L = Target_to_source" "wf_tensor x" "shape x = [n, F]" "nrows pos = n"
    and "valid_edges n edge_index"
  shows "(neighbor_loc L = ''position'' \<longrightarrow>
            and_then (EdgeConvBase_collect L edge_index x pos)
              (\<lambda>(n, x_i, x_j, pos_i, pos_j). EdgeConvBase_message rt L x_i x_j pos_i pos_j)
            = Inr (msg_net L (Mat (F + F + ncols pos)
                (map (\<lambda>(i, j). feature x i @ feature x j @ delta rt pos i j) edge_index))))
       \<and> (neighbor_loc L = ''distance'' \<longrightarrow>
            and_then (EdgeConvBase_collect L edge_index x pos)
              (\<lambda>(n, x_i, x_j, pos_i, pos_j). EdgeConvBase_message rt L x_i x_j pos_i pos_j)
            = Inr (msg_net L (Mat (F + F + 1)
                (map (\<lambda>(i, j). feature x i @ feature x j @ [f_norm rt (delta rt pos i j)])
                   edge_index))))
       \<and> (neighbor_loc L = ''radial'' \<and> 2 \<le> ncols pos \<longrightarrow>
            and_then (EdgeConvBase_collect L edge_index x pos)
              (\<lambda>(n, x_i, x_j, pos_i, pos_j). EdgeConvBase_message rt L x_i x_j pos_i pos_j)
            = Inr (msg_net L (Mat (F + F + 1 + 1)
                (map (\<lambda>(i, j). feature x i @ feature x j @
                        [f_norm rt (delta rt pos i j),
                         f_atan2 rt (delta rt pos i j ! 1) (delta rt pos i j ! 0)])
                   edge_index))))"
proof -
  have m: "and_then (EdgeConvBase_collect L edge_index x pos)
             (\<lambda>(n, x_i, x_j, pos_i, pos_j). EdgeConvBase_message rt L x_i x_j pos_i pos_j)
           = and_then (EdgeConvBase_edge_inputs rt L edge_index x pos)
               (\<lambda>inputs. Inr (msg_net L inputs))"
    by (cases "EdgeConvBase_collect L edge_index x pos")
      (auto simp: EdgeConvBase_edge_inputs_def EdgeConvBase_message_def)
  show ?thesis
    unfolding m
    using EdgeConvBase_edge_inputs_position [OF assms, of rt]
      EdgeConvBase_edge_inputs_distance [OF assms, of rt]
      EdgeConvBase_edge_inputs_radial [OF assms, of rt]
    by simp
qed

theorem EdgeConvBase_message_inputs_witness:
  "and_then (EdgeConvBase_collect (plain_layer ''position'' True) scenario_edges scenario_x
              scenario_pos)
     (\<lambda>(n, x_i, x_j, pos_i, pos_j).
        EdgeConvBase_message int_runtime (plain_layer ''position'' True) x_i x_j pos_i pos_j)
   = Inr (Mat 4 [[10, 20, 1, 0], [10, 30, 0, 1]])
   \<and> and_then (EdgeConvBase_collect (plain_layer ''distance'' True) scenario_edges scenario_x
              scenario_pos)
     (\<lambda>(n, x_i, x_j, pos_i, pos_j).
        EdgeConvBase_message int_runtime (plain_layer ''distance'' True) x_i x_j pos_i pos_j)
   = Inr (Mat 3 [[10, 20, 1], [10, 30, 1]])
   \<and> and_then (EdgeConvBase_collect (plain_layer ''radial'' True) scenario_edges scenario_x
              scenario_pos)
     (\<lambda>(n, x_i, x_j, pos_i, pos_j).
        EdgeConvBase_message int_runtime (plain_layer ''radial'' True) x_i x_j pos_i pos_j)
   = Inr (Mat 4 [[10, 20, 1, 1], [10, 30, 1, 10]])"
  using
    EdgeConvBase_message_inputs [of "plain_layer ''position'' True" scenario_x 3 1
      scenario_pos scenario_edges int_runtime]
    EdgeConvBase_message_inputs [of "plain_layer ''distance'' True" scenario_x 3 1
      scenario_pos scenario_edges int_runtime]
    EdgeConvBase_message_inputs [of "plain_layer ''radial'' True" scenario_x 3 1
      scenario_pos scenario_edges int_runtime]
  by (simp add: plain_layer_def EdgeConvBase_init_def scenario_x_def scenario_pos_def
      scenario_edges_def wf_tensor_def nrows_def valid_edges_def feature_def slice_def
      slice_len_def delta_def row_def int_runtime_def)

text \<open>
  C3. A layer of \<open>EdgeConvBase\<close> constructed with a mode outside \<open>position\<close>,
  \<open>distance\<close>, \<open>radial\<close> fails with the \<open>NameError\<close> whenever its \<open>message\<close> is
  reached: \<open>message\<close> raises on every argument, and whenever \<open>propagate\<close> gets as far as
  calling it (the gathering succeeded) the error is the result of \<open>forward\<close>; nothing
  catches it.
\<close>

theorem unknown_mode_raises:
  assumes "neighbor_loc L \<notin> {''position'', ''distance'', ''radial''}"
  shows "EdgeConvBase_message rt L x_i x_j pos_i pos_j = Inl NameError
       \<and> (\<forall>g. EdgeConvBase_collect L edge_index
                 (if dim x = 1 then unsqueeze_last x else x) pos = Inr g
              \<longrightarrow> EdgeConvBase_forward rt L x (LongIndex edge_index) pos = Inl NameError)"
  using assms
  by (auto simp: EdgeConvBase_message_def EdgeConvBase_inputs_def EdgeConvBase_forward_def
      EdgeConvBase_propagate_def)

theorem unknown_mode_raises_witness:
  "EdgeConvBase_message int_runtime (plain_layer ''polar'' True)
     (Tensor [2, 1] [10, 10]) (Tensor [2, 1] [20, 30])
     (Mat 2 [[0, 0], [0, 0]]) (Mat 2 [[1, 0], [0, 1]]) = Inl NameError
   \<and> EdgeConvBase_forward int_runtime (plain_layer ''polar'' True)
       scenario_x (LongIndex scenario_edges) scenario_pos = Inl NameError"
proof -
  have m: "neighbor_loc (plain_layer ''polar'' True) \<notin> {''position'', ''distance'', ''radial''}"
    by (simp add: plain_layer_def EdgeConvBase_init_def)
  have c: "EdgeConvBase_collect (plain_layer ''polar'' True) scenario_edges
             (if dim scenario_x = 1 then unsqueeze_last scenario_x else scenario_x) scenario_pos
           = Inr (3, Tensor [2, 1] [10, 10], Tensor [2, 1] [20, 30],
                  Mat 2 [[0, 0], [0, 0]], Mat 2 [[1, 0], [0, 1]])"
    by code_simp
  show ?thesis
    using unknown_mode_raises [OF m, of int_runtime] c by blast
qed



text \<open>
  C5, as the code has it. For features of width \<open>F\<close> and positions of width \<open>D\<close>, the
  input of the message network of \<open>EdgeConvBase\<close> has \<open>F \<times> 2 + 1\<close> columns in mode
  \<open>distance\<close>, \<open>F \<times> 2 + D\<close> columns in mode \<open>position\<close> (so \<open>F \<times> 2 + 2\<close> for planar
  positions), and \<open>F \<times> 2 + 2\<close> columns in mode \<open>radial\<close> (the distance and the angle);
  and the input of the aggregation network is wider by \<open>F\<close>, the width of the features,
  when \<open>self_val\<close> is set than when it is not.
\<close>

theorem network_input_widths:
  assumes "flow L = Target_to_source" "wf_tensor x" "shape x = [n, F]" "nrows pos = n"
    and "valid_edges n edge_index"
  shows "(neighbor_loc L = ''distance'' \<longrightarrow>
            width (EdgeConvBase_edge_inputs rt L edge_index x pos) = Inr (F * 2 + 1))
       \<and> (neighbor_loc L = ''position'' \<longrightarrow>
            width (EdgeConvBase_edge_inputs rt L edge_index x pos) = Inr (F * 2 + ncols pos))
       \<and> (neighbor_loc L = ''radial'' \<and> 2 \<le> ncols pos \<longrightarrow>
            width (EdgeConvBase_edge_inputs rt L edge_index x pos) = Inr (F * 2 + 2))
       \<and> (nrows aggr_out = n \<longrightarrow>
            width (EdgeConvBase_update_inp (L\<lparr>self_val := True\<rparr>) aggr_out x)
              = Inr (F + ncols aggr_out)
          \<and> width (EdgeConvBase_update_inp (L\<lparr>self_val := False\<rparr>) aggr_out x)
              = Inr (ncols aggr_out))"
proof -
  have u: "width (EdgeConvBase_update_inp (L\<lparr>self_val := True\<rparr>) aggr_out x)
             = Inr (F + ncols aggr_out)"
    if "nrows aggr_out = n"
    using that assms(3)
    by (simp add: EdgeConvBase_update_inp_def as_mat_def width_def cat1_def nrows_def)
  have v: "width (EdgeConvBase_update_inp (L\<lparr>self_val := False\<rparr>) aggr_out x)
             = Inr (ncols aggr_out)"
    by (simp add: EdgeConvBase_update_inp_def width_def)
  show ?thesis
    using EdgeConvBase_edge_inputs_position [OF assms, of rt]
      EdgeConvBase_edge_inputs_distance [OF assms, of rt]
      EdgeConvBase_edge_inputs_radial [OF assms, of rt] u v
    by (simp add: width_def)
qed

theorem network_input_widths_witness:
  "width (EdgeConvBase_edge_inputs int_runtime (plain_layer ''distance'' True) scenario_edges
      scenario_x scenario_pos) = Inr 3
   \<and> width (EdgeConvBase_edge_inputs int_runtime (plain_layer ''position'' True) scenario_edges
      scenario_x scenario_pos) = Inr 4
   \<and> width (EdgeConvBase_edge_inputs int_runtime (plain_layer ''radial'' True) scenario_edges
      scenario_x scenario_pos) = Inr 4
   \<and> width (EdgeConvBase_update_inp (plain_layer ''position'' True)
        (Mat 4 [[10, 25, 0, 0], [0, 0, 0, 0], [0, 0, 0, 0]]) scenario_x) = Inr 5
   \<and> width (EdgeConvBase_update_inp (plain_layer ''position'' False)
        (Mat 4 [[10, 25, 0, 0], [0, 0, 0, 0], [0, 0, 0, 0]]) scenario_x) = Inr 4"
proof -
  have a: "wf_tensor scenario_x" "shape scenario_x = [3, 1]" "nrows scenario_pos = 3"
    "valid_edges 3 scenario_edges"
    by (simp_all add: wf_tensor_def scenario_x_def scenario_pos_def scenario_edges_def
        nrows_def valid_edges_def)
  have f: "flow (plain_layer m True) = Target_to_source" for m
    by (simp add: plain_layer_def EdgeConvBase_init_def)
  have b: "nrows (Mat 4 [[10, 25, 0, 0], [0, 0, 0, 0], [0, 0, 0, 0 :: int]]) = 3"
    by (simp add: nrows_def)
  have s: "plain_layer ''position'' True\<lparr>self_val := False\<rparr> = plain_layer ''position'' False"
    "plain_layer ''position'' True\<lparr>self_val := True\<rparr> = plain_layer ''position'' True"
    by (simp_all add: plain_layer_def EdgeConvBase_init_def)
  have m: "neighbor_loc (plain_layer m True) = m" for m
    by (simp add: plain_layer_def EdgeConvBase_init_def)
  have p: "ncols scenario_pos = 2"
    by (simp add: scenario_pos_def)
  note t = network_input_widths [OF f a]
  have "width (EdgeConvBase_edge_inputs int_runtime (plain_layer ''distance'' True)
          scenario_edges scenario_x scenario_pos) = Inr 3"
    using t [of "''distance''" int_runtime] by (simp add: m)
  moreover have "width (EdgeConvBase_edge_inputs int_runtime (plain_layer ''position'' True)
          scenario_edges scenario_x scenario_pos) = Inr 4"
    using t [of "''position''" int_runtime] by (simp add: m p)
  moreover have "width (EdgeConvBase_edge_inputs int_runtime (plain_layer ''radial'' True)
          scenario_edges scenario_x scenario_pos) = Inr 4"
    using t [of "''radial''" int_runtime] by (simp add: m p)
  moreover have "width (EdgeConvBase_update_inp (plain_layer ''position'' True)
        (Mat 4 [[10, 25, 0, 0], [0, 0, 0, 0], [0, 0, 0, 0]]) scenario_x) = Inr 5
      \<and> width (EdgeConvBase_update_inp (plain_layer ''position'' False)
        (Mat 4 [[10, 25, 0, 0], [0, 0, 0, 0], [0, 0, 0, 0]]) scenario_x) = Inr 4"
    using t [of "''position''" int_runtime
        "Mat 4 [[10, 25, 0, 0], [0, 0, 0, 0], [0, 0, 0, 0]]"] b
    by (simp add: s)
  ultimately show ?thesis
    by blast
qed

text \<open>
  C5 as stated fails. With one feature per node and planar positions the input of the
  message network in mode \<open>radial\<close> has 4 columns, not \<open>1 \<times> 2 + 3\<close>; and with two
  features per node the input of the aggregation network is wider by 2 with \<open>self_val\<close>,
  not by 1.
\<close>

theorem network_input_widths_counterexample:
  "width (EdgeConvBase_edge_inputs int_runtime (plain_layer ''radial'' True) scenario_edges
      scenario_x scenario_pos) \<noteq> Inr (1 * 2 + 3)
   \<and> width (EdgeConvBase_update_inp (plain_layer ''position'' True)
        (Mat 1 [[0], [0], [0]]) (Tensor [3, 2] [10, 11, 20, 21, 30, 31]))
     \<noteq> and_then (width (EdgeConvBase_update_inp (plain_layer ''position'' False)
          (Mat 1 [[0], [0], [0]]) (Tensor [3, 2] [10, 11, 20, 21, 30, 31])))
        (\<lambda>w. Inr (w + 1))"
proof -
  have "width (EdgeConvBase_edge_inputs int_runtime (plain_layer ''radial'' True) scenario_edges
      scenario_x scenario_pos) = Inr 4"
    by code_simp
  moreover have "width (EdgeConvBase_update_inp (plain_layer ''position'' True)
        (Mat 1 [[0], [0], [0]]) (Tensor [3, 2] [10, 11, 20, 21, 30, 31])) = Inr 3"
    by code_simp
  moreover have "width (EdgeConvBase_update_inp (plain_layer ''position'' False)
        (Mat 1 [[0], [0], [0]]) (Tensor [3, 2] [10, 11, 20, 21, 30, 31])) = Inr 1"
    by code_simp
  ultimately show ?thesis
    by simp
qed












text \<open>
  C7. Under the \<open>target_to_source\<close> flow, for every edge \<open>(i, j)\<close> of a valid edge
  index, the row that \<open>EdgeConvWithCtx.message\<close> builds is feature \<open>i\<close>, feature \<open>j\<close>
  minus feature \<open>i\<close>, the distance, the unit direction and the context of node \<open>i\<close>, the
  first endpoint of the edge; the message network is applied to the matrix of these rows.
  \<open>update\<close> applies the aggregation network to the matrix whose row \<open>k\<close> is the
  aggregate of node \<open>k\<close> followed by the context of node \<open>k\<close>.
\<close>

theorem EdgeConvWithCtx_message_and_update_inputs:
  assumes "flow L = Target_to_source" "wf_tensor x" "shape x = [n, F]" "nrows pos = n"
    and "nrows ctx = n" "valid_edges n edge_index"
  shows "and_then (EdgeConvWithCtx_collect L edge_index x pos ctx)
           (\<lambda>(n, x_i, x_j, pos_i, pos_j, ctx_i).
              EdgeConvWithCtx_message rt L x_i x_j pos_i pos_j ctx_i)
         = Inr (msg_net L (Mat (F + F + 1 + ncols pos + ncols ctx)
             (map (\<lambda>(i, j). feature x i @ map2 (f_sub rt) (feature x j) (feature x i)
                     @ [f_norm rt (delta rt pos i j)] @ unit_direction rt (delta rt pos i j)
                     @ row ctx i) edge_index)))
       \<and> (nrows aggr_out = n \<longrightarrow>
            EdgeConvWithCtx_update L aggr_out x pos ctx
            = Inr (aggr_net L (Mat (ncols aggr_out + ncols ctx)
                (map (\<lambda>k. rows aggr_out ! k @ row ctx (int k)) [0..<n]))))"
proof -
  have m: "and_then (EdgeConvWithCtx_collect L edge_index x pos ctx)
             (\<lambda>(n, x_i, x_j, pos_i, pos_j, ctx_i).
                EdgeConvWithCtx_message rt L x_i x_j pos_i pos_j ctx_i)
           = and_then (EdgeConvWithCtx_edge_inputs rt L edge_index x pos ctx)
               (\<lambda>inputs. Inr (msg_net L inputs))"
    by (cases "EdgeConvWithCtx_collect L edge_index x pos ctx")
      (auto simp: EdgeConvWithCtx_edge_inputs_def EdgeConvWithCtx_message_def)
  have u: "EdgeConvWithCtx_update L aggr_out x pos ctx
           = Inr (aggr_net L (Mat (ncols aggr_out + ncols ctx)
               (map (\<lambda>k. rows aggr_out ! k @ row ctx (int k)) [0..<n])))"
    if "nrows aggr_out = n"
    using that assms(5)
    by (simp add: EdgeConvWithCtx_update_def EdgeConvWithCtx_update_inputs_def cat1_rows row_def)
  show ?thesis
    unfolding m using u by (simp add: EdgeConvWithCtx_edge_inputs_ok [OF assms])
qed

theorem EdgeConvWithCtx_message_and_update_inputs_witness:
  "and_then (EdgeConvWithCtx_collect (plain_layer ''position'' True) scenario_edges scenario_x
              scenario_pos scenario_ctx)
     (\<lambda>(n, x_i, x_j, pos_i, pos_j, ctx_i).
        EdgeConvWithCtx_message int_runtime (plain_layer ''position'' True)
          x_i x_j pos_i pos_j ctx_i)
   = Inr (Mat 6 [[10, 10, 1, 1, 0, 7], [10, 20, 1, 0, 1, 7]])
   \<and> EdgeConvWithCtx_update (plain_layer ''position'' True)
       (Mat 6 [[10, 15, 1, 0, 0, 7], [0, 0, 0, 0, 0, 0], [0, 0, 0, 0, 0, 0]])
       scenario_x scenario_pos scenario_ctx
     = Inr (Mat 7 [[10, 15, 1, 0, 0, 7, 7], [0, 0, 0, 0, 0, 0, 8], [0, 0, 0, 0, 0, 0, 9]])"
proof -
  have a: "flow (plain_layer ''position'' True) = Target_to_source"
    "wf_tensor scenario_x" "shape scenario_x = [3, 1]" "nrows scenario_pos = 3"
    "nrows scenario_ctx = 3" "valid_edges 3 scenario_edges"
    by (simp_all add: plain_layer_def EdgeConvBase_init_def wf_tensor_def scenario_x_def
        scenario_pos_def scenario_ctx_def scenario_edges_def nrows_def valid_edges_def)
  have b: "nrows (Mat 6 [[10, 15, 1, 0, 0, 7], [0, 0, 0, 0, 0, 0], [0, 0, 0, 0, 0, 0 :: int]]) = 3"
    by (simp add: nrows_def)
  note t = EdgeConvWithCtx_message_and_update_inputs [OF a, of int_runtime
      "Mat 6 [[10, 15, 1, 0, 0, 7], [0, 0, 0, 0, 0, 0], [0, 0, 0, 0, 0, 0]]"]
  have e: "Inr (msg_net (plain_layer ''position'' True)
             (Mat (1 + 1 + 1 + ncols scenario_pos + ncols scenario_ctx)
               (map (\<lambda>(i, j). feature scenario_x i
                 @ map2 (f_sub int_runtime) (feature scenario_x j) (feature scenario_x i)
                 @ [f_norm int_runtime (delta int_runtime scenario_pos i j)]
                 @ unit_direction int_runtime (delta int_runtime scenario_pos i j)
                 @ row scenario_ctx i) scenario_edges)))
           = (Inr (Mat 6 [[10, 10, 1, 1, 0, 7], [10, 20, 1, 0, 1, 7]]) :: error + int mat)"
    by code_simp
  have r: "Inr (aggr_net (plain_layer ''position'' True)
             (Mat (ncols (Mat 6 [[10, 15, 1, 0, 0, 7], [0, 0, 0, 0, 0, 0],
                                 [0, 0, 0, 0, 0, 0 :: int]]) + ncols scenario_ctx)
               (map (\<lambda>k. rows (Mat 6 [[10, 15, 1, 0, 0, 7], [0, 0, 0, 0, 0, 0],
                                       [0, 0, 0, 0, 0, 0]]) ! k @ row scenario_ctx (int k))
                  [0..<3])))
           = (Inr (Mat 7 [[10, 15, 1, 0, 0, 7, 7], [0, 0, 0, 0, 0, 0, 8],
                          [0, 0, 0, 0, 0, 0, 9]]) :: error + int mat)"
    by code_simp
  show ?thesis
    by (intro conjI trans [OF t [THEN conjunct1] e] trans [OF t [THEN conjunct2, THEN mp, OF b] r])
qed

text \<open>
  C8. When the features are a flat sequence of \<open>N\<close> entries, \<open>forward\<close> (of
  \<open>EdgeConvBase\<close> and of \<open>EdgeConvWithCtx\<close>) passes \<open>propagate\<close> the tensor of shape
  \<open>N \<times> 1\<close> with the same entries, in which every entry is a feature vector of length 1;
  a feature tensor of two dimensions or more is passed as it is.
\<close>

theorem forward_unsqueezes_flat_features:
  "(shape x = [N] \<longrightarrow>
      EdgeConvBase_forward rt L x edge_index pos
        = EdgeConvBase_propagate rt L edge_index (Tensor [N, 1] (elems x)) pos
    \<and> EdgeConvWithCtx_forward rt L x edge_index pos ctx
        = EdgeConvWithCtx_propagate rt L edge_index (Tensor [N, 1] (elems x)) pos ctx
    \<and> (wf_tensor x \<longrightarrow>
         as_mat (Tensor [N, 1] (elems x)) = Inr (Mat 1 (map (\<lambda>v. [v]) (elems x)))))
   \<and> (2 \<le> dim x \<longrightarrow>
      EdgeConvBase_forward rt L x edge_index pos = EdgeConvBase_propagate rt L edge_index x pos
    \<and> EdgeConvWithCtx_forward rt L x edge_index pos ctx
        = EdgeConvWithCtx_propagate rt L edge_index x pos ctx)"
proof -
  have "as_mat (Tensor [N, 1] (elems x)) = Inr (Mat 1 (map (\<lambda>v. [v]) (elems x)))"
    if "shape x = [N]" "wf_tensor x"
  proof -
    have n: "length (elems x) = N"
      using that by (simp add: wf_tensor_def)
    have "as_mat (Tensor [length (map (\<lambda>v. [v]) (elems x)), 1]
             (concat (map (\<lambda>v. [v]) (elems x))))
          = Inr (Mat 1 (map (\<lambda>v. [v]) (elems x)))"
      by (rule as_mat_concat) simp
    then show ?thesis
      using n by (simp add: concat_singletons)
  qed
  then show ?thesis
    by (simp add: EdgeConvBase_forward_def EdgeConvWithCtx_forward_def dim_def
        unsqueeze_last_def)
qed

theorem forward_unsqueezes_flat_features_witness:
  "EdgeConvBase_forward int_runtime (plain_layer ''position'' True) (Tensor [3] [10, 20, 30])
     (LongIndex scenario_edges) scenario_pos
   = Inr (Mat 5 [[10, 10, 25, 0, 0], [20, 0, 0, 0, 0], [30, 0, 0, 0, 0]])
   \<and> as_mat (Tensor [3, 1] [10, 20, 30 :: int]) = Inr (Mat 1 [[10], [20], [30]])
   \<and> EdgeConvBase_forward int_runtime (plain_layer ''position'' True) scenario_x
     (LongIndex scenario_edges) scenario_pos
   = Inr (Mat 5 [[10, 10, 25, 0, 0], [20, 0, 0, 0, 0], [30, 0, 0, 0, 0]])"
proof -
  have p: "EdgeConvBase_propagate int_runtime (plain_layer ''position'' True)
          (LongIndex scenario_edges)
          (Tensor [3, 1] [10, 20, 30]) scenario_pos
        = Inr (Mat 5 [[10, 10, 25, 0, 0], [20, 0, 0, 0, 0], [30, 0, 0, 0, 0]])"
    by code_simp
  show ?thesis
    using p
      forward_unsqueezes_flat_features [where x = "Tensor [3] [10, 20, 30]" and N = 3
        and rt = int_runtime and L = "plain_layer ''position'' True"
        and edge_index = "LongIndex scenario_edges" and pos = scenario_pos]
      forward_unsqueezes_flat_features [where x = scenario_x
        and rt = int_runtime and L = "plain_layer ''position'' True"
        and edge_index = "LongIndex scenario_edges" and pos = scenario_pos]
    by (simp add: wf_tensor_def scenario_x_def dim_def)
qed

text \<open>
  C9. Two \<open>EdgeConvWithCtx\<close> layers that differ only in \<open>self_val\<close> return the same
  output on every input: the \<open>update\<close> of this class reads the aggregate and the context
  only, so neither the flag nor the features and positions it is passed change its result.
\<close>

theorem self_val_ignored_by_EdgeConvWithCtx:
  "EdgeConvWithCtx_forward rt (L\<lparr>self_val := True\<rparr>) x edge_index pos ctx
     = EdgeConvWithCtx_forward rt (L\<lparr>self_val := False\<rparr>) x edge_index pos ctx
   \<and> EdgeConvWithCtx_update (L\<lparr>self_val := b\<rparr>) aggr_out x pos ctx
     = EdgeConvWithCtx_update L aggr_out x' pos' ctx"
  by (simp add: EdgeConvWithCtx_forward_def EdgeConvWithCtx_propagate_def
      EdgeConvWithCtx_collect_def EdgeConvWithCtx_message_def EdgeConvWithCtx_update_def Let_def
      cong: if_cong edge_index.case_cong)

theorem self_val_ignored_by_EdgeConvWithCtx_witness:
  "EdgeConvWithCtx_forward int_runtime (plain_layer ''position'' True)
     scenario_x (LongIndex scenario_edges) scenario_pos scenario_ctx
   = Inr (Mat 7 [[10, 15, 1, 0, 0, 7, 7], [0, 0, 0, 0, 0, 0, 8], [0, 0, 0, 0, 0, 0, 9]])
   \<and> EdgeConvWithCtx_forward int_runtime (plain_layer ''position'' False)
     scenario_x (LongIndex scenario_edges) scenario_pos scenario_ctx
   = Inr (Mat 7 [[10, 15, 1, 0, 0, 7, 7], [0, 0, 0, 0, 0, 0, 8], [0, 0, 0, 0, 0, 0, 9]])"
proof -
  have "EdgeConvWithCtx_forward int_runtime (plain_layer ''position'' False)
          scenario_x (LongIndex scenario_edges) scenario_pos scenario_ctx
        = Inr (Mat 7 [[10, 15, 1, 0, 0, 7, 7], [0, 0, 0, 0, 0, 0, 8], [0, 0, 0, 0, 0, 0, 9]])"
    by code_simp
  then show ?thesis
    using self_val_ignored_by_EdgeConvWithCtx [where rt = int_runtime
        and L = "plain_layer ''position'' True" and x = scenario_x
        and edge_index = "LongIndex scenario_edges" and pos = scenario_pos and ctx = scenario_ctx]
    by (simp add: plain_layer_def EdgeConvBase_init_def)
qed

text \<open>
  C10. \<open>EdgeConvGeom\<close> never raises the \<open>NameError\<close> of an unknown mode, and its output
  does not depend on the mode it was constructed with: its own \<open>message\<close> never reads
  \<open>neighbor_loc\<close>, so a mode outside \<open>position\<close>, \<open>distance\<close>, \<open>radial\<close> gives the
  result every other mode gives.
\<close>

theorem EdgeConvGeom_ignores_mode:
  "EdgeConvGeom_forward rt (L\<lparr>neighbor_loc := m\<rparr>) edge_index pos
     = EdgeConvGeom_forward rt L edge_index pos
   \<and> EdgeConvGeom_forward rt L edge_index pos \<noteq> Inl NameError"
proof -
  have i: "EdgeConvGeom_message rt L a b \<noteq> Inl NameError" for a b
    unfolding EdgeConvGeom_message_def EdgeConvGeom_inputs_def Let_def
    by (intro and_then_no_NameError cat1_no_NameError) simp
  have c: "EdgeConvGeom_collect L ei pos \<noteq> Inl NameError" for ei
    unfolding EdgeConvGeom_collect_def
    by (intro and_then_no_NameError mat_index_select_no_NameError) simp
  have "EdgeConvGeom_propagate rt L edge_index pos \<noteq> Inl NameError"
  proof (cases edge_index)
    case (LongIndex ei)
    have "and_then (EdgeConvGeom_collect L ei pos) (\<lambda>v. case v of (n, pos_i, pos_j) \<Rightarrow>
             and_then (EdgeConvGeom_message rt L pos_i pos_j) (\<lambda>out.
             and_then (scatter rt (aggr L) out (edge_i (flow L) ei) n) (\<lambda>aggr_out.
             EdgeConvGeom_update L aggr_out))) \<noteq> Inl NameError"
    proof (intro and_then_no_NameError c)
      fix v :: "nat \<times> 'a mat \<times> 'a mat"
      obtain n a b where v: "v = (n, a, b)" by (cases v) auto
      show "(case v of (n, pos_i, pos_j) \<Rightarrow>
               and_then (EdgeConvGeom_message rt L pos_i pos_j) (\<lambda>out.
               and_then (scatter rt (aggr L) out (edge_i (flow L) ei) n) (\<lambda>aggr_out.
               EdgeConvGeom_update L aggr_out))) \<noteq> Inl NameError"
        unfolding v prod.case
        by (intro and_then_no_NameError i scatter_no_NameError)
          (simp add: EdgeConvGeom_update_def)
    qed
    then show ?thesis
      by (simp add: EdgeConvGeom_propagate_def LongIndex)
  next
    case (FloatIndex es)
    then show ?thesis
      by (simp add: EdgeConvGeom_propagate_def)
  qed
  then show ?thesis
    by (simp add: EdgeConvGeom_forward_def EdgeConvGeom_propagate_def EdgeConvGeom_collect_def
        EdgeConvGeom_message_def EdgeConvGeom_update_def cong: edge_index.case_cong)
qed

theorem EdgeConvGeom_ignores_mode_witness:
  "EdgeConvGeom_forward int_runtime (plain_layer ''polar'' True) (LongIndex scenario_edges)
     scenario_pos
   = Inr (Mat 3 [[1, 0, 0], [0, 0, 0], [0, 0, 0]])"
proof -
  have "EdgeConvGeom_forward int_runtime (plain_layer ''position'' True)
          (LongIndex scenario_edges) scenario_pos = Inr (Mat 3 [[1, 0, 0], [0, 0, 0], [0, 0, 0]])"
    by code_simp
  then show ?thesis
    using EdgeConvGeom_ignores_mode [where rt = int_runtime
        and L = "plain_layer ''position'' True" and m = "''polar''"
        and edge_index = "LongIndex scenario_edges" and pos = scenario_pos]
    by (simp add: plain_layer_def EdgeConvBase_init_def)
qed

end
